theory Spec2Isabelle
  imports Complex_Main
begin

section \<open>Floating-point values\<close>

text \<open>
  The arrays of \<^verbatim>\<open>deposition.py\<close> hold float64 values. A computed value is modelled as
  a finite real, an infinity or NaN, with the IEEE rules for the special values. Finite
  arithmetic is exact (no rounding, no overflow or underflow of a finite result) and zero has
  no sign:
  it divides like \<^verbatim>\<open>+0.0\<close>. The series and parameters a caller passes in are finite,
  so they are plain reals; a missing residence time (NaN in the pandas series) is
  \<open>None\<close>.
\<close>

datatype fl = Fin real | PInf | NInf | NaN

fun fl_neg :: "fl \<Rightarrow> fl" where
  "fl_neg (Fin a) = Fin (- a)"
| "fl_neg PInf = NInf"
| "fl_neg NInf = PInf"
| "fl_neg NaN = NaN"

fun fl_abs :: "fl \<Rightarrow> fl" where
  "fl_abs (Fin a) = Fin \<bar>a\<bar>"
| "fl_abs PInf = PInf"
| "fl_abs NInf = PInf"
| "fl_abs NaN = NaN"

fun fl_add :: "fl \<Rightarrow> fl \<Rightarrow> fl" where
  "fl_add NaN b = NaN"
| "fl_add a NaN = NaN"
| "fl_add (Fin a) (Fin b) = Fin (a + b)"
| "fl_add PInf NInf = NaN"
| "fl_add NInf PInf = NaN"
| "fl_add PInf b = PInf"
| "fl_add a PInf = PInf"
| "fl_add NInf b = NInf"
| "fl_add a NInf = NInf"

definition fl_sub :: "fl \<Rightarrow> fl \<Rightarrow> fl" where
  "fl_sub a b = fl_add a (fl_neg b)"

fun fl_mul :: "fl \<Rightarrow> fl \<Rightarrow> fl" where
  "fl_mul NaN b = NaN"
| "fl_mul a NaN = NaN"
| "fl_mul (Fin a) (Fin b) = Fin (a * b)"
| "fl_mul (Fin a) PInf = (if a = 0 then NaN else if 0 < a then PInf else NInf)"
| "fl_mul (Fin a) NInf = (if a = 0 then NaN else if 0 < a then NInf else PInf)"
| "fl_mul PInf (Fin b) = (if b = 0 then NaN else if 0 < b then PInf else NInf)"
| "fl_mul NInf (Fin b) = (if b = 0 then NaN else if 0 < b then NInf else PInf)"
| "fl_mul PInf PInf = PInf"
| "fl_mul PInf NInf = NInf"
| "fl_mul NInf PInf = NInf"
| "fl_mul NInf NInf = PInf"

fun fl_div :: "fl \<Rightarrow> fl \<Rightarrow> fl" where
  "fl_div NaN b = NaN"
| "fl_div a NaN = NaN"
| "fl_div (Fin a) (Fin b) =
     (if b = 0 then (if a = 0 then NaN else if 0 < a then PInf else NInf) else Fin (a / b))"
| "fl_div (Fin a) PInf = Fin 0"
| "fl_div (Fin a) NInf = Fin 0"
| "fl_div PInf (Fin b) = (if 0 \<le> b then PInf else NInf)"
| "fl_div NInf (Fin b) = (if 0 \<le> b then NInf else PInf)"
| "fl_div PInf PInf = NaN"
| "fl_div PInf NInf = NaN"
| "fl_div NInf PInf = NaN"
| "fl_div NInf NInf = NaN"

text \<open>Comparisons with NaN are false.\<close>

fun fl_less :: "fl \<Rightarrow> fl \<Rightarrow> bool" where
  "fl_less NaN b = False"
| "fl_less a NaN = False"
| "fl_less (Fin a) (Fin b) = (a < b)"
| "fl_less a NInf = False"
| "fl_less PInf b = False"
| "fl_less NInf b = True"
| "fl_less a PInf = True"

fun fl_ge :: "fl \<Rightarrow> fl \<Rightarrow> bool" where
  "fl_ge NaN b = False"
| "fl_ge a NaN = False"
| "fl_ge (Fin a) (Fin b) = (b \<le> a)"
| "fl_ge a NInf = True"
| "fl_ge PInf b = True"
| "fl_ge NInf b = False"
| "fl_ge a PInf = False"

fun isnan :: "fl \<Rightarrow> bool" where
  "isnan NaN = True"
| "isnan a = False"


text \<open>Python's \<^verbatim>\<open>max(a, b)\<close> keeps \<open>a\<close> unless \<open>b > a\<close>.\<close>

definition py_max :: "fl \<Rightarrow> fl \<Rightarrow> fl" where
  "py_max a b = (if fl_less a b then b else a)"

primrec fl_sum :: "fl list \<Rightarrow> fl" where
  "fl_sum [] = Fin 0"
| "fl_sum (a # as) = fl_add a (fl_sum as)"

definition dot :: "fl list \<Rightarrow> fl list \<Rightarrow> fl" where
  "dot a b = fl_sum (map2 fl_mul a b)"

section \<open>Arrays, series and errors\<close>

text \<open>
  A two-dimensional \<^verbatim>\<open>ndarray\<close> keeps its shape beside its rows, since an array of
  shape \<open>(0, k)\<close> or \<open>(k, 0)\<close> has no entry to read the shape from.
\<close>

record matrix =
  nrows :: nat
  ncols :: nat
  entries :: "fl list list"

definition drop_rows :: "nat \<Rightarrow> matrix \<Rightarrow> matrix" where
  "drop_rows n m = \<lparr>nrows = nrows m - n, ncols = ncols m, entries = drop n (entries m)\<rparr>"

definition transpose_m :: "matrix \<Rightarrow> matrix" where
  "transpose_m m =
     \<lparr>nrows = ncols m, ncols = nrows m,
      entries = map (\<lambda>j. map (\<lambda>r. r ! j) (entries m)) [0..<ncols m]\<rparr>"

text \<open>
  A time series is a list of (timestamp, value) pairs. Timestamps and time differences
  are real numbers of days, so the division by \<^verbatim>\<open>pd.to_timedelta(1.0, unit="D")\<close> is a
  division by one.
\<close>

type_synonym series = "(real \<times> real) list"

datatype error =
    ValueError string
  | IndexError
  | IndexingError
  | ShapeError
  | LinAlgError string

text \<open>
  \<open>ValueError\<close> carries the message the source builds. \<open>IndexError\<close> is an index out
  of range, \<open>IndexingError\<close> is pandas refusing a boolean mask that does not fit the
  series, \<open>ShapeError\<close> is the error of numpy and pandas for operands whose shapes do not
  fit, and \<open>LinAlgError\<close> stands for a failure inside a numerical routine.
\<close>

fun str_nat :: "nat \<Rightarrow> string" where
  "str_nat n =
     (if n < 10 then [''0123456789'' ! n]
      else str_nat (n div 10) @ [''0123456789'' ! (n mod 10)])"

declare str_nat.simps [simp del]

section \<open>The routines of numpy, scipy and the residence-time module\<close>

text \<open>
  \<^verbatim>\<open>residence_time_retarded\<close>, \<^verbatim>\<open>np.linalg.lstsq\<close>, \<^verbatim>\<open>np.linalg.svd\<close> and
  \<^verbatim>\<open>scipy.optimize.minimize\<close> are not part of \<^verbatim>\<open>deposition.py\<close>. They are parameters
  of the model, collected in one record. The residence time comes back as one entry per
  flow sample, \<open>None\<close> where pandas holds a missing value. The numerical routines may
  raise. \<open>minimize\<close> receives the objective with its extra arguments already applied
  and the starting point.
\<close>

record optres =
  res_success :: bool
  res_message :: string
  res_x :: "fl list"

record env =
  residence_time_retarded :: "series \<Rightarrow> real \<Rightarrow> real \<Rightarrow> real option list"
  lstsq :: "matrix \<Rightarrow> real list \<Rightarrow> error + fl list"
  svd :: "matrix \<Rightarrow> error + (matrix \<times> fl list \<times> matrix)"
  minimize :: "(fl list \<Rightarrow> error + fl) \<Rightarrow> fl list \<Rightarrow> error + optres"

section \<open>deposition_coefficients\<close>

text \<open>
  \<^verbatim>\<open>Index.searchsorted(value)\<close> with the default \<^verbatim>\<open>side="left"\<close>: the binary search
  of numpy over the index.
\<close>

function bisect_left :: "real list \<Rightarrow> real \<Rightarrow> nat \<Rightarrow> nat \<Rightarrow> nat" where
  "bisect_left a v lo hi =
     (if lo < hi
      then (let mid = lo + (hi - lo) div 2
            in if a ! mid < v then bisect_left a v (mid + 1) hi else bisect_left a v lo mid)
      else lo)"
  by pat_completeness auto
termination
  by (relation "measure (\<lambda>(a, v, lo, hi). hi - lo)") auto

declare bisect_left.simps [simp del]

definition searchsorted :: "real list \<Rightarrow> real \<Rightarrow> nat" where
  "searchsorted a v = bisect_left a v 0 (length a)"

text \<open>\<^verbatim>\<open>xs[lo:hi] = v\<close> for indices that are not negative; the slice is cut at the end.\<close>

definition slice_fill :: "real list \<Rightarrow> nat \<Rightarrow> nat \<Rightarrow> real \<Rightarrow> real list" where
  "slice_fill xs lo hi v = map (\<lambda>j. if lo \<le> j \<and> j < hi then v else xs ! j) [0..<length xs]"

text \<open>
  One pass of the loop over \<^verbatim>\<open>df_out.iterrows()\<close>: the row of \<^verbatim>\<open>dt\<close>, which starts
  as zeros. Reading \<^verbatim>\<open>flow.index[itinf]\<close> raises when \<open>itinf\<close> is the length of the index.
\<close>

definition dt_row :: "real list \<Rightarrow> real \<Rightarrow> real \<Rightarrow> error + real list" where
  "dt_row idx date_extraction dates_infiltration_retarded =
     (let itinf = searchsorted idx dates_infiltration_retarded;
          itextr = searchsorted idx date_extraction;
          row = slice_fill (replicate (length idx) 0) itinf (itextr + 1) 1
      in if itinf < length idx
         then Inr (row[itinf := - (dates_infiltration_retarded - idx ! itinf) / 1])
         else Inl IndexError)"

record df_row =
  row_date_extraction :: real
  row_rt :: real
  row_flow :: real
  row_dates_infiltration_retarded :: real
  row_darea :: fl

fun dt_rows :: "real list \<Rightarrow> df_row list \<Rightarrow> error + real list list" where
  "dt_rows idx [] = Inr []"
| "dt_rows idx (r # rs) =
     (case dt_row idx (row_date_extraction r) (row_dates_infiltration_retarded r) of
        Inl e \<Rightarrow> Inl e
      | Inr d \<Rightarrow> (case dt_rows idx rs of Inl e \<Rightarrow> Inl e | Inr ds \<Rightarrow> Inr (d # ds)))"

text \<open>
  The rows of \<^verbatim>\<open>df_out\<close> before the flow is clipped: the samples whose residence time
  is not missing, in the order of the flow index, with the infiltration date and the area.
\<close>

fun valid_rows :: "real \<Rightarrow> (real \<times> real) list \<Rightarrow> real option list \<Rightarrow> df_row list" where
  "valid_rows c ((t, q) # fs) (Some r # rs) =
     \<lparr>row_date_extraction = t, row_rt = r, row_flow = q,
      row_dates_infiltration_retarded = t - r,
      row_darea = fl_div (Fin q) (Fin c)\<rparr> # valid_rows c fs rs"
| "valid_rows c ((t, q) # fs) (None # rs) = valid_rows c fs rs"
| "valid_rows c fs rs = []"

text \<open>\<^verbatim>\<open>Series.median()\<close> of finite values; NaN for an empty series.\<close>

definition median :: "real list \<Rightarrow> fl" where
  "median xs =
     (let s = sort xs; n = length xs
      in if n = 0 then NaN
         else if odd n then Fin (s ! (n div 2))
         else Fin ((s ! (n div 2 - 1) + s ! (n div 2)) / 2))"

text \<open>\<^verbatim>\<open>Series.clip(lower=b)\<close> on one value; a bound that is NaN does not clip.\<close>

definition clip_lower :: "fl \<Rightarrow> real \<Rightarrow> real" where
  "clip_lower b v = (case b of Fin l \<Rightarrow> max v l | _ \<Rightarrow> v)"

definition scale_row :: "df_row \<Rightarrow> real list \<Rightarrow> fl list" where
  "scale_row r d = map (\<lambda>w. fl_mul (fl_div (row_darea r) (Fin (row_flow r))) (Fin w)) d"

definition has_nan :: "fl list list \<Rightarrow> bool" where
  "has_nan m = list_ex (list_ex isnan) m"

text \<open>
  Lines 147 to 170 of \<^verbatim>\<open>deposition_coefficients\<close>: the table \<^verbatim>\<open>df_out\<close> and the
  scaled matrix, before the test for NaN. pandas refuses the boolean mask of a residence
  time that does not have one entry per flow sample.
\<close>

definition scaled_coefficients ::
  "env \<Rightarrow> series \<Rightarrow> real \<Rightarrow> real \<Rightarrow> real \<Rightarrow> real \<Rightarrow> error + (df_row list \<times> matrix)" where
  "scaled_coefficients env flow aquifer_pore_volume porosity thickness retardation_factor =
     (let rt = residence_time_retarded env flow aquifer_pore_volume retardation_factor
      in if length rt \<noteq> length flow then Inl IndexingError
         else
           (let df0 = valid_rows (retardation_factor * porosity * thickness) flow rt;
                nin = length flow;
                nout = length df0
            in case dt_rows (map fst flow) df0 of
                 Inl e \<Rightarrow> Inl e
               | Inr dt \<Rightarrow>
                   (let flow_floor = fl_div (median (map snd flow)) (Fin 100);
                        df_out = map (\<lambda>r. r\<lparr>row_flow := clip_lower flow_floor (row_flow r)\<rparr>) df0;
                        coeff = \<lparr>nrows = nout, ncols = nin, entries = map2 scale_row df_out dt\<rparr>
                    in Inr (df_out, coeff))))"

text \<open>Lines 172 to 176: the test \<^verbatim>\<open>np.isnan(coeff).any()\<close> and the return.\<close>

definition deposition_coefficients ::
  "env \<Rightarrow> series \<Rightarrow> real \<Rightarrow> real \<Rightarrow> real \<Rightarrow> real \<Rightarrow> error + (df_row list \<times> matrix)" where
  "deposition_coefficients env flow aquifer_pore_volume porosity thickness retardation_factor =
     (case scaled_coefficients env flow aquifer_pore_volume porosity thickness retardation_factor of
        Inl e \<Rightarrow> Inl e
      | Inr (df_out, coeff) \<Rightarrow>
          if has_nan (entries coeff)
          then Inl (ValueError ''Coefficients contain nan values.'')
          else Inr (df_out, coeff))"

section \<open>nullspace\<close>

text \<open>
  The matrix is two-dimensional already, so \<^verbatim>\<open>np.atleast_2d\<close> changes nothing, and
  \<^verbatim>\<open>conj\<close> is the identity on real entries. Reading \<^verbatim>\<open>s[0]\<close> raises when there is
  no singular value.
\<close>

definition nullspace :: "env \<Rightarrow> matrix \<Rightarrow> real \<Rightarrow> real \<Rightarrow> error + matrix" where
  "nullspace env coefficients atol rtol =
     (case svd env coefficients of
        Inl e \<Rightarrow> Inl e
      | Inr (u, s, vh) \<Rightarrow>
          (case s of
             [] \<Rightarrow> Inl IndexError
           | s0 # rest \<Rightarrow>
               (let tol = py_max (Fin atol) (fl_mul (Fin rtol) s0);
                    nnz = length (filter (\<lambda>x. fl_ge x tol) s)
                in Inr (transpose_m (drop_rows nnz vh)))))"

section \<open>compute_deposition and compute_concentration\<close>

text \<open>\<^verbatim>\<open>m @ x\<close> for a matrix and a vector.\<close>

definition matvec :: "matrix \<Rightarrow> fl list \<Rightarrow> error + fl list" where
  "matvec m x = (if length x = ncols m then Inr (map (\<lambda>r. dot r x) (entries m)) else Inl ShapeError)"

text \<open>\<^verbatim>\<open>a + b\<close> for two vectors, with numpy's broadcasting of a vector of length one.\<close>

definition np_add :: "fl list \<Rightarrow> fl list \<Rightarrow> error + fl list" where
  "np_add a b =
     (if length a = length b then Inr (map2 fl_add a b)
      else if length a = 1 then Inr (map (fl_add (hd a)) b)
      else if length b = 1 then Inr (map (\<lambda>v. fl_add v (hd b)) a)
      else Inl ShapeError)"

text \<open>\<^verbatim>\<open>sols[1:] - sols[:-1]\<close>\<close>

definition first_differences :: "fl list \<Rightarrow> fl list" where
  "first_differences sols = map2 fl_sub (tl sols) (butlast sols)"

definition solutions :: "fl list \<Rightarrow> fl list \<Rightarrow> matrix \<Rightarrow> error + fl list" where
  "solutions x xLS colsOfNullspace =
     (case matvec colsOfNullspace x of Inl e \<Rightarrow> Inl e | Inr v \<Rightarrow> np_add xLS v)"

definition objective_squared_lengths :: "fl list \<Rightarrow> fl list \<Rightarrow> matrix \<Rightarrow> error + fl" where
  "objective_squared_lengths x xLS colsOfNullspace =
     (case solutions x xLS colsOfNullspace of
        Inl e \<Rightarrow> Inl e
      | Inr sols \<Rightarrow> Inr (fl_sum (map (\<lambda>d. fl_mul d d) (first_differences sols))))"

definition objective_summed_lengths :: "fl list \<Rightarrow> fl list \<Rightarrow> matrix \<Rightarrow> error + fl" where
  "objective_summed_lengths x xLS colsOfNullspace =
     (case solutions x xLS colsOfNullspace of
        Inl e \<Rightarrow> Inl e
      | Inr sols \<Rightarrow> Inr (fl_sum (map fl_abs (first_differences sols))))"

text \<open>
  The value passed as \<^verbatim>\<open>nullspace_objective\<close>: a string, a callable with the signature
  \<^verbatim>\<open>objective(x, xLS, colsOfNullspace)\<close>, or any other value, kept as the text that the
  error message prints for it.
\<close>

datatype objective =
    Str string
  | Callable "fl list \<Rightarrow> fl list \<Rightarrow> matrix \<Rightarrow> error + fl"
  | Other string

fun format_objective :: "objective \<Rightarrow> string" where
  "format_objective (Str s) = s"
| "format_objective (Callable f) = ''<function>''"
| "format_objective (Other s) = s"

fun is_str :: "objective \<Rightarrow> string \<Rightarrow> bool" where
  "is_str (Str s) t = (s = t)"
| "is_str ob t = False"

text \<open>
  The calls of the numerical routines are recorded in the order in which they happen, so
  that a statement can say what ran before an error.
\<close>

datatype stage = Squared_lengths | Summed_lengths | Custom

datatype call = Call_lstsq | Call_svd | Call_minimize stage

text \<open>Lines 73 to 87: the second minimisation, or the error for an unknown objective.\<close>

definition second_stage ::
  "env \<Rightarrow> objective \<Rightarrow> optres \<Rightarrow> fl list \<Rightarrow> matrix \<Rightarrow> call list \<times> (error + optres)" where
  "second_stage env nullspace_objective res deposition_ls colsOfNullspace =
     (if \<not> is_str nullspace_objective ''squared_lengths''
      then (if is_str nullspace_objective ''summed_lengths''
            then ([Call_minimize Summed_lengths],
                  minimize env (\<lambda>x. objective_summed_lengths x deposition_ls colsOfNullspace) (res_x res))
            else (case nullspace_objective of
                    Callable f \<Rightarrow>
                      ([Call_minimize Custom],
                       minimize env (\<lambda>x. f x deposition_ls colsOfNullspace) (res_x res))
                  | _ \<Rightarrow>
                      ([], Inl (ValueError (''Unknown nullspace objective: ''
                                             @ format_objective nullspace_objective)))))
      else ([], Inr res))"

text \<open>Lines 89 and 90: the series over the flow index; pandas refuses data of another length.\<close>

definition deposition_series :: "series \<Rightarrow> fl list \<Rightarrow> matrix \<Rightarrow> optres \<Rightarrow> error + (real \<times> fl) list" where
  "deposition_series flow deposition_ls colsOfNullspace res =
     (case solutions (res_x res) deposition_ls colsOfNullspace of
        Inl e \<Rightarrow> Inl e
      | Inr deposition_data \<Rightarrow>
          if length deposition_data = length flow
          then Inr (zip (map fst flow) deposition_data)
          else Inl ShapeError)"

text \<open>Lines 60 to 90: the search in the nullspace.\<close>

definition pick_solution ::
  "env \<Rightarrow> objective \<Rightarrow> series \<Rightarrow> fl list \<Rightarrow> matrix \<Rightarrow> call list \<times> (error + (real \<times> fl) list)" where
  "pick_solution env nullspace_objective flow deposition_ls colsOfNullspace =
     (let nullrank = ncols colsOfNullspace;
          deposition_0 = replicate nullrank (Fin 0)
      in case minimize env (\<lambda>x. objective_squared_lengths x deposition_ls colsOfNullspace) deposition_0 of
           Inl e \<Rightarrow> ([Call_minimize Squared_lengths], Inl e)
         | Inr res \<Rightarrow>
             if \<not> res_success res
             then ([Call_minimize Squared_lengths],
                   Inl (ValueError (''Optimization failed: '' @ res_message res)))
             else (case second_stage env nullspace_objective res deposition_ls colsOfNullspace of
                     (calls, Inl e) \<Rightarrow> (Call_minimize Squared_lengths # calls, Inl e)
                   | (calls, Inr res2) \<Rightarrow>
                       (Call_minimize Squared_lengths # calls,
                        deposition_series flow deposition_ls colsOfNullspace res2)))"

definition length_message :: "nat \<Rightarrow> nat \<Rightarrow> string" where
  "length_message n m =
     ''Length of cout ('' @ str_nat n
       @ '') should be equal to the number of rows in coeff ('' @ str_nat m @ '')'' @ ''Either ''"

definition compute_deposition ::
  "env \<Rightarrow> series \<Rightarrow> series \<Rightarrow> real \<Rightarrow> real \<Rightarrow> real \<Rightarrow> real \<Rightarrow> objective
     \<Rightarrow> call list \<times> (error + (real \<times> fl) list)" where
  "compute_deposition env cout flow aquifer_pore_volume porosity thickness retardation_factor
       nullspace_objective =
     (case deposition_coefficients env flow aquifer_pore_volume porosity thickness retardation_factor of
        Inl e \<Rightarrow> ([], Inl e)
      | Inr (df_out, coeff) \<Rightarrow>
          if length cout \<noteq> nrows coeff
          then ([], Inl (ValueError (length_message (length cout) (nrows coeff))))
          else (case lstsq env coeff (map snd cout) of
                  Inl e \<Rightarrow> ([Call_lstsq], Inl e)
                | Inr deposition_ls \<Rightarrow>
                    (case nullspace env coeff (1 / 10 ^ 13) 0 of
                       Inl e \<Rightarrow> ([Call_lstsq, Call_svd], Inl e)
                     | Inr colsOfNullspace \<Rightarrow>
                         (case pick_solution env nullspace_objective flow deposition_ls colsOfNullspace of
                            (calls, r) \<Rightarrow> (Call_lstsq # Call_svd # calls, r)))))"


section \<open>Fixed results for the outside routines\<close>

text \<open>
  To run the model on one input, the routines are replaced by the results they have on
  that input: the residence times, the least-squares solution, the decomposition, and the
  result of the optimiser as a function of its starting point.
\<close>

definition fixed_env ::
  "real option list \<Rightarrow> fl list \<Rightarrow> matrix \<times> fl list \<times> matrix \<Rightarrow> (fl list \<Rightarrow> optres) \<Rightarrow> env" where
  "fixed_env rt x usv opt =
     \<lparr>residence_time_retarded = (\<lambda>flow v r. rt),
      lstsq = (\<lambda>m b. Inr x),
      svd = (\<lambda>m. Inr usv),
      minimize = (\<lambda>f x0. Inr (opt x0))\<rparr>"

text \<open>The same for a statement about the coefficients alone, where no routine of numpy or scipy runs.\<close>

definition residence_env :: "real option list \<Rightarrow> env" where
  "residence_env rt =
     \<lparr>residence_time_retarded = (\<lambda>flow v r. rt),
      lstsq = (\<lambda>m b. Inl (LinAlgError ''not called'')),
      svd = (\<lambda>m. Inl (LinAlgError ''not called'')),
      minimize = (\<lambda>f x0. Inl (LinAlgError ''not called''))\<rparr>"


section \<open>The binary search\<close>

lemma bisect_left_unfold:
  "lo < hi \<Longrightarrow> a ! (lo + (hi - lo) div 2) < v \<Longrightarrow>
     bisect_left a v lo hi = bisect_left a v (lo + (hi - lo) div 2 + 1) hi"
  "lo < hi \<Longrightarrow> \<not> a ! (lo + (hi - lo) div 2) < v \<Longrightarrow>
     bisect_left a v lo hi = bisect_left a v lo (lo + (hi - lo) div 2)"
  "\<not> lo < hi \<Longrightarrow> bisect_left a v lo hi = lo"
  by (subst bisect_left.simps, simp add: Let_def)+

text \<open>
  The loop invariant: everything left of \<open>lo\<close> is below the value and nothing from
  \<open>hi\<close> on is. On a sorted index the search therefore ends at the left insertion point.
\<close>

lemma bisect_left_spec:
  assumes "sorted a" "lo \<le> hi" "hi \<le> length a"
    "\<forall>j<lo. a ! j < v" "\<forall>j. hi \<le> j \<and> j < length a \<longrightarrow> v \<le> a ! j"
  shows "lo \<le> bisect_left a v lo hi \<and> bisect_left a v lo hi \<le> hi
     \<and> (\<forall>j<bisect_left a v lo hi. a ! j < v)
     \<and> (\<forall>j. bisect_left a v lo hi \<le> j \<and> j < length a \<longrightarrow> v \<le> a ! j)"
  using assms
proof (induction a v lo hi rule: bisect_left.induct)
  case (1 a v lo hi)
  show ?case
  proof (cases "lo < hi")
    case False
    then have "bisect_left a v lo hi = lo" by (rule bisect_left_unfold(3))
    with "1.prems" False show ?thesis by simp
  next
    case True
    define mid where "mid = lo + (hi - lo) div 2"
    have mid: "lo \<le> mid" "mid < hi" using True by (simp_all add: mid_def)
    show ?thesis
    proof (cases "a ! mid < v")
      case lt: True
      have below: "\<forall>j<mid + 1. a ! j < v"
      proof (intro allI impI)
        fix j assume "j < mid + 1"
        then have "j \<le> mid" by simp
        moreover have "mid < length a" using mid "1.prems"(3) by simp
        ultimately have "a ! j \<le> a ! mid" using \<open>sorted a\<close> by (rule_tac sorted_nth_mono)
        then show "a ! j < v" using lt by simp
      qed
      have eq: "bisect_left a v lo hi = bisect_left a v (mid + 1) hi"
        unfolding mid_def using True lt[unfolded mid_def] by (rule bisect_left_unfold(1))
      have le: "mid + 1 \<le> hi" using mid by simp
      note IH = "1.IH"(1)[OF True mid_def lt \<open>sorted a\<close> le "1.prems"(3) below "1.prems"(5)]
      show ?thesis unfolding eq using IH mid by simp
    next
      case ge: False
      have above: "\<forall>j. mid \<le> j \<and> j < length a \<longrightarrow> v \<le> a ! j"
      proof (intro allI impI)
        fix j assume j: "mid \<le> j \<and> j < length a"
        then have "a ! mid \<le> a ! j" using \<open>sorted a\<close> by (rule_tac sorted_nth_mono) simp_all
        then show "v \<le> a ! j" using ge by simp
      qed
      have eq: "bisect_left a v lo hi = bisect_left a v lo mid"
        unfolding mid_def using True ge[unfolded mid_def] by (rule bisect_left_unfold(2))
      have le: "mid \<le> length a" using mid "1.prems"(3) by simp
      note IH = "1.IH"(2)[OF True mid_def ge \<open>sorted a\<close> mid(1) le "1.prems"(4) above]
      show ?thesis unfolding eq using IH mid by simp
    qed
  qed
qed

lemma searchsorted_spec:
  assumes "sorted a"
  shows "searchsorted a v \<le> length a"
    and "j < searchsorted a v \<Longrightarrow> a ! j < v"
    and "searchsorted a v \<le> j \<Longrightarrow> j < length a \<Longrightarrow> v \<le> a ! j"
  using bisect_left_spec[of a 0 "length a" v] assms
  by (simp_all add: searchsorted_def)

section \<open>The rows of the coefficient matrix\<close>

lemma valid_rows_mem:
  "r \<in> set (valid_rows c fs rs) \<Longrightarrow>
     (row_date_extraction r, row_flow r) \<in> set fs
     \<and> Some (row_rt r) \<in> set rs
     \<and> row_dates_infiltration_retarded r = row_date_extraction r - row_rt r
     \<and> row_darea r = fl_div (Fin (row_flow r)) (Fin c)"
  by (induction c fs rs rule: valid_rows.induct) auto

lemma dt_row_spec:
  assumes "sorted idx" "t \<in> set idx" "d \<le> t"
  defines "i \<equiv> searchsorted idx d" and "k \<equiv> searchsorted idx t"
  shows "i \<le> k" and "k < length idx" and "idx ! k = t" and "d \<le> idx ! i"
    and "\<forall>j<i. idx ! j < d"
    and "dt_row idx t d =
      Inr (map (\<lambda>j. if j = i then idx ! i - d else if i < j \<and> j \<le> k then 1 else 0)
             [0..<length idx])"
proof -
  obtain p where p: "p < length idx" "idx ! p = t"
    using assms(2) by (auto simp: in_set_conv_nth)
  have kp: "k \<le> p"
  proof (rule ccontr)
    assume "\<not> k \<le> p"
    then have "idx ! p < t" using searchsorted_spec(2)[OF assms(1), of p t] by (simp add: k_def)
    with p show False by simp
  qed
  show klen: "k < length idx" using kp p by simp
  have "t \<le> idx ! k"
    using searchsorted_spec(3)[OF assms(1), of t k] klen by (simp add: k_def)
  moreover have "idx ! k \<le> idx ! p" using assms(1) kp p(1) by (rule sorted_nth_mono)
  ultimately show ik: "idx ! k = t" using p by simp
  show below: "\<forall>j<i. idx ! j < d"
    using searchsorted_spec(2)[OF assms(1), of _ d] by (simp add: i_def)
  show le: "i \<le> k"
  proof (rule ccontr)
    assume "\<not> i \<le> k"
    then have "idx ! k < d" using below by simp
    with ik assms(3) show False by simp
  qed
  then have ilen: "i < length idx" using klen by simp
  show "d \<le> idx ! i"
    using searchsorted_spec(3)[OF assms(1), of d i] ilen by (simp add: i_def)
  show "dt_row idx t d =
      Inr (map (\<lambda>j. if j = i then idx ! i - d else if i < j \<and> j \<le> k then 1 else 0)
             [0..<length idx])"
    using ilen
    by (auto simp: dt_row_def Let_def i_def[symmetric] k_def[symmetric] slice_fill_def
        intro!: nth_equalityI simp: nth_list_update)
qed

lemma dt_row_length: "dt_row idx t d = Inr row \<Longrightarrow> length row = length idx"
  by (auto simp: dt_row_def Let_def slice_fill_def split: if_splits)

lemma dt_rows_spec:
  "dt_rows idx rs = Inr dt \<Longrightarrow>
     length dt = length rs
     \<and> (\<forall>i<length rs. dt_row idx (row_date_extraction (rs ! i))
                          (row_dates_infiltration_retarded (rs ! i)) = Inr (dt ! i))"
proof (induction rs arbitrary: dt)
  case Nil
  then show ?case by simp
next
  case (Cons r rs)
  then show ?case
    by (auto split: sum.splits simp: nth_Cons split: nat.splits)
qed

lemma valid_rows_filter:
  "map (\<lambda>r. ((row_date_extraction r, row_flow r), Some (row_rt r))) (valid_rows c fs rs)
     = filter (\<lambda>(p, r). r \<noteq> None) (zip fs rs)"
  by (induction c fs rs rule: valid_rows.induct) auto

lemma scaled_coefficients_Inr:
  assumes "scaled_coefficients env flow apv por th R = Inr (df_out, coeff)"
  shows "length (residence_time_retarded env flow apv R) = length flow"
    and "\<exists>dt. dt_rows (map fst flow) (valid_rows (R * por * th) flow (residence_time_retarded env flow apv R)) = Inr dt
          \<and> df_out = map (\<lambda>r. r\<lparr>row_flow := clip_lower (fl_div (median (map snd flow)) (Fin 100)) (row_flow r)\<rparr>)
                (valid_rows (R * por * th) flow (residence_time_retarded env flow apv R))
          \<and> coeff = \<lparr>nrows = length (valid_rows (R * por * th) flow (residence_time_retarded env flow apv R)),
                     ncols = length flow, entries = map2 scale_row df_out dt\<rparr>"
  using assms
  by (auto simp: scaled_coefficients_def Let_def split: if_splits sum.splits)

lemma deposition_coefficients_Inr:
  "deposition_coefficients env flow apv por th R = Inr (df_out, coeff) \<longleftrightarrow>
     scaled_coefficients env flow apv por th R = Inr (df_out, coeff) \<and> \<not> has_nan (entries coeff)"
  by (auto simp: deposition_coefficients_def split: sum.splits if_splits)


lemma valid_rows_length:
  "length rs = length fs \<Longrightarrow>
     length (valid_rows c fs rs) = length (filter (\<lambda>r. r \<noteq> None) rs)"
  by (induction c fs rs rule: valid_rows.induct) auto

lemma nrows_valid:
  assumes "deposition_coefficients env flow apv por th R = Inr (df, coeff)"
  shows "nrows coeff = length (filter (\<lambda>r. r \<noteq> None) (residence_time_retarded env flow apv R))"
proof -
  have sc: "scaled_coefficients env flow apv por th R = Inr (df, coeff)"
    using assms by (simp add: deposition_coefficients_Inr)
  from scaled_coefficients_Inr[OF sc] show ?thesis
    by (auto simp: valid_rows_length)
qed

lemma valid_rows_all_missing:
  "\<forall>r\<in>set rs. r = None \<Longrightarrow> valid_rows c fs rs = []"
  by (induction c fs rs rule: valid_rows.induct) auto

lemma deposition_coefficients_all_missing:
  assumes "length (residence_time_retarded env flow apv R) = length flow"
    and "\<forall>r\<in>set (residence_time_retarded env flow apv R). r = None"
  shows "deposition_coefficients env flow apv por th R
           = Inr ([], \<lparr>nrows = 0, ncols = length flow, entries = []\<rparr>)"
  using assms
  by (simp add: deposition_coefficients_def scaled_coefficients_def valid_rows_all_missing
      Let_def has_nan_def)

section \<open>Singular values and the basis\<close>

lemma fl_ge_trans: "fl_ge a b \<Longrightarrow> fl_ge b c \<Longrightarrow> fl_ge a c"
  by (cases a; cases b; cases c) simp_all

lemma fl_ge_refl: "x \<noteq> NaN \<Longrightarrow> fl_ge x x"
  by (cases x) simp_all

lemma py_max_not_nan: "py_max (Fin a) b \<noteq> NaN"
  by (cases b) (simp_all add: py_max_def)

lemma count_ge_prefix:
  "sorted_wrt fl_ge s \<Longrightarrow> i < length s \<Longrightarrow>
     (i < length (filter (\<lambda>x. fl_ge x tol) s)) = fl_ge (s ! i) tol"
proof (induction s arbitrary: i)
  case Nil
  then show ?case by simp
next
  case (Cons x xs)
  show ?case
  proof (cases "fl_ge x tol")
    case True
    with Cons show ?thesis by (cases i) simp_all
  next
    case False
    have none: "\<not> fl_ge y tol" if "y \<in> set xs" for y
      using Cons.prems(1) that False fl_ge_trans[of x y tol] by auto
    then have "filter (\<lambda>x. fl_ge x tol) xs = []" by (simp add: filter_empty_conv)
    with False none Cons.prems(2) show ?thesis by (cases i) simp_all
  qed
qed

lemma nullspace_Inr:
  "svd env A = Inr (u, s, vh) \<Longrightarrow> s \<noteq> [] \<Longrightarrow>
     nullspace env A atol rtol =
       Inr (transpose_m (drop_rows
              (length (filter (\<lambda>x. fl_ge x (py_max (Fin atol) (fl_mul (Fin rtol) (hd s)))) s)) vh))"
  by (cases s) (simp_all add: nullspace_def Let_def)

lemma transpose_column:
  assumes "j < length rs" "length (rs ! j) = k"
  shows "map (\<lambda>r. r ! j) (map (\<lambda>c. map (\<lambda>r. r ! c) rs) [0..<k]) = rs ! j"
  using assms by (auto intro!: nth_equalityI)

section \<open>The search in the nullspace\<close>

lemma second_stage_unknown:
  assumes "\<not> is_str ob ''squared_lengths''" "\<not> is_str ob ''summed_lengths''" "\<forall>f. ob \<noteq> Callable f"
  shows "second_stage env ob res x N =
           ([], Inl (ValueError (''Unknown nullspace objective: '' @ format_objective ob)))"
  using assms by (cases ob) (simp_all add: second_stage_def)

lemma pick_solution_unknown:
  assumes "\<not> is_str ob ''squared_lengths''" "\<not> is_str ob ''summed_lengths''" "\<forall>f. ob \<noteq> Callable f"
  shows "\<exists>e. pick_solution env ob flow x N = ([Call_minimize Squared_lengths], Inl e)
           \<and> (\<forall>res. minimize env (\<lambda>w. objective_squared_lengths w x N)
                        (replicate (ncols N) (Fin 0)) = Inr res \<and> res_success res
                 \<longrightarrow> e = ValueError (''Unknown nullspace objective: '' @ format_objective ob))"
  by (auto simp: pick_solution_def Let_def second_stage_unknown[OF assms] split: sum.splits)

lemma first_stage_failure:
  assumes "deposition_coefficients env flow apv por th R = Inr (df, coeff)"
    and "length cout = nrows coeff"
    and "lstsq env coeff (map snd cout) = Inr x"
    and "nullspace env coeff (1 / 10 ^ 13) 0 = Inr N"
    and "minimize env (\<lambda>w. objective_squared_lengths w x N) (replicate (ncols N) (Fin 0)) = Inr res"
    and "\<not> res_success res"
  shows "compute_deposition env cout flow apv por th R ob =
           ([Call_lstsq, Call_svd, Call_minimize Squared_lengths],
            Inl (ValueError (''Optimization failed: '' @ res_message res)))"
  using assms by (simp add: compute_deposition_def pick_solution_def)

lemma summed_lengths_unchecked:
  assumes "deposition_coefficients env flow apv por th R = Inr (df, coeff)"
    and "length cout = nrows coeff"
    and "lstsq env coeff (map snd cout) = Inr x"
    and "nullspace env coeff (1 / 10 ^ 13) 0 = Inr N"
    and "minimize env (\<lambda>w. objective_squared_lengths w x N) (replicate (ncols N) (Fin 0)) = Inr res"
    and "res_success res"
    and "minimize env (\<lambda>w. objective_summed_lengths w x N) (res_x res) = Inr res2"
  shows "compute_deposition env cout flow apv por th R (Str ''summed_lengths'') =
           ([Call_lstsq, Call_svd, Call_minimize Squared_lengths, Call_minimize Summed_lengths],
            deposition_series flow x N res2)"
  using assms by (simp add: compute_deposition_def pick_solution_def second_stage_def)

lemma minimize_raises_on_nothing:
  assumes "deposition_coefficients env flow apv por th R = Inr (df, coeff)"
    and "length cout = nrows coeff"
    and "lstsq env coeff (map snd cout) = Inr x"
    and "nullspace env coeff (1 / 10 ^ 13) 0 = Inr N" and "ncols N = 0"
    and "minimize env (\<lambda>w. objective_squared_lengths w x N) [] = Inl e"
  shows "compute_deposition env cout flow apv por th R ob =
           ([Call_lstsq, Call_svd, Call_minimize Squared_lengths], Inl e)"
  using assms by (simp add: compute_deposition_def pick_solution_def)

section \<open>The round trip\<close>








section \<open>C1: the weights of one row\<close>

text \<open>
  C1, as the code has it. For every valid extraction row built by
  \<^verbatim>\<open>deposition_coefficients\<close> over a sorted flow index, with a residence time that is
  not negative: the grid index \<open>i_inf\<close> found by the binary search is the first index
  whose timestamp is at or after the infiltration timestamp (every earlier grid timestamp
  is strictly before it), \<open>i_extr\<close> is the index of the extraction timestamp, and the row
  of \<^verbatim>\<open>dt\<close> holds the weight \<open>grid[i_inf] - infiltration_timestamp\<close> in days in column
  \<open>i_inf\<close> (the negated fractional day offset, not one minus it), the weight 1 in the
  columns after \<open>i_inf\<close> up to \<open>i_extr\<close>, and 0 elsewhere.
\<close>

theorem dt_row_weights:
  assumes "sorted (map fst flow)" and "r \<in> set (valid_rows c flow rt)" and "0 \<le> row_rt r"
  shows "let idx = map fst flow;
             d = row_dates_infiltration_retarded r;
             i_inf = searchsorted idx d;
             i_extr = searchsorted idx (row_date_extraction r)
         in i_inf \<le> i_extr \<and> i_extr < length idx \<and> idx ! i_extr = row_date_extraction r
            \<and> d \<le> idx ! i_inf \<and> (\<forall>j<i_inf. idx ! j < d)
            \<and> dt_row idx (row_date_extraction r) d =
                Inr (map (\<lambda>j. if j = i_inf then idx ! i_inf - d
                               else if i_inf < j \<and> j \<le> i_extr then 1 else 0)
                       [0..<length idx])"
proof -
  have mem: "row_date_extraction r \<in> set (map fst flow)"
    and d: "row_dates_infiltration_retarded r \<le> row_date_extraction r"
    using valid_rows_mem[OF assms(2)] assms(3) by (force, simp)
  show ?thesis
    unfolding Let_def
    using dt_row_spec[OF assms(1) mem d] by simp
qed

text \<open>
  The theorem at three daily samples and an extraction on day 2 after half a day in the
  aquifer: the search gives index 2 and the row is \<open>[0, 0, 1/2]\<close>.
\<close>

theorem dt_row_weights_witness:
  "sorted (map fst [(0::real, 1::real), (1, 1), (2, 1)])
   \<and> \<lparr>row_date_extraction = 2, row_rt = 1 / 2, row_flow = 1,
       row_dates_infiltration_retarded = 3 / 2, row_darea = Fin 1\<rparr>
       \<in> set (valid_rows 1 [(0, 1), (1, 1), (2, 1)] [None, None, Some (1 / 2)])
   \<and> searchsorted [0, 1, 2] (3 / 2) = 2
   \<and> dt_row [0, 1, 2] 2 (3 / 2) = Inr [0, 0, 1 / 2]"
  using dt_row_weights[of "[(0, 1), (1, 1), (2, 1)]"
      "\<lparr>row_date_extraction = 2, row_rt = 1 / 2, row_flow = 1,
        row_dates_infiltration_retarded = 3 / 2, row_darea = Fin 1\<rparr>"
      1 "[None, None, Some (1 / 2)]"]
  by (simp add: searchsorted_def bisect_left.simps Let_def upt_rec)

text \<open>
  C1 as the specification states it fails on that row: the index found is 2, whose
  timestamp 2 is after the infiltration timestamp 3/2, and the weight there is 1/2, while
  one minus the fractional day offset is 3/2.
\<close>

theorem dt_row_counterexample:
  "searchsorted [0, 1, 2] (3 / 2) = 2
   \<and> \<not> ([0, 1, 2 :: real] ! 2 \<le> 3 / 2)
   \<and> dt_row [0, 1, 2] 2 (3 / 2) = Inr [0, 0, 1 / 2]
   \<and> (1 / 2 :: real) \<noteq> 1 - (3 / 2 - [0, 1, 2] ! 2)"
  by (simp add: dt_row_def slice_fill_def searchsorted_def bisect_left.simps Let_def upt_rec)

section \<open>C2: the basis returned by nullspace\<close>

text \<open>
  C2, as the code has it. Let the decomposition return the singular values in descending
  order and a square \<^verbatim>\<open>vh\<close> with one row per column of the input. When there is at
  least one singular value, that is when the matrix has a row and a column: with
  \<open>tol = max(atol, rtol * largest_singular_value)\<close> and \<open>nnz\<close> the number of singular
  values that are at least \<open>tol\<close>, \<^verbatim>\<open>nullspace\<close> returns a matrix of shape
  (n_columns x (n_columns - nnz)) whose columns are the rows of \<^verbatim>\<open>vh\<close> from \<open>nnz\<close> on:
  the right singular vectors whose singular value is not at least \<open>tol\<close>, that is
  strictly below it, and the rows of \<^verbatim>\<open>vh\<close> that have no singular value. The columns
  are orthonormal when the rows of \<^verbatim>\<open>vh\<close> are. A singular value exactly equal to
  \<open>tol\<close> counts as nonzero and contributes no basis vector. When there is no singular
  value, \<^verbatim>\<open>nullspace\<close> returns nothing: it raises IndexError.
\<close>

theorem nullspace_basis:
  assumes svd: "svd env A = Inr (u, s, vh)" and desc: "sorted_wrt fl_ge s"
    and vh_rows: "nrows vh = ncols A" and vh_cols: "ncols vh = ncols A"
    and vh_len: "length (entries vh) = ncols A"
    and vh_rect: "\<forall>r\<in>set (entries vh). length r = ncols A"
  shows "(s = [] \<longrightarrow> nullspace env A atol rtol = Inl IndexError)
       \<and> (s \<noteq> [] \<longrightarrow>
          (let tol = py_max (Fin atol) (fl_mul (Fin rtol) (hd s));
               nnz = length (filter (\<lambda>x. fl_ge x tol) s)
           in \<exists>N. nullspace env A atol rtol = Inr N
              \<and> nrows N = ncols A \<and> ncols N = ncols A - nnz
              \<and> length (entries N) = ncols A
              \<and> (\<forall>r\<in>set (entries N). length r = ncols A - nnz)
              \<and> (\<forall>j<ncols A - nnz. map (\<lambda>r. r ! j) (entries N) = entries vh ! (nnz + j))
              \<and> (\<forall>i<length s. (nnz \<le> i) = (\<not> fl_ge (s ! i) tol))
              \<and> (\<forall>i<length s. s ! i = tol \<longrightarrow> i < nnz)
              \<and> ((\<forall>i<ncols A. \<forall>j<ncols A.
                      dot (entries vh ! i) (entries vh ! j) = Fin (if i = j then 1 else 0))
                  \<longrightarrow> (\<forall>i<ncols A - nnz. \<forall>j<ncols A - nnz.
                         dot (map (\<lambda>r. r ! i) (entries N)) (map (\<lambda>r. r ! j) (entries N))
                           = Fin (if i = j then 1 else 0)))))"
proof (intro conjI impI)
  assume "s = []"
  then show "nullspace env A atol rtol = Inl IndexError"
    using svd by (simp add: nullspace_def)
next
  assume ne: "s \<noteq> []"
  define tol where "tol = py_max (Fin atol) (fl_mul (Fin rtol) (hd s))"
  define nnz where "nnz = length (filter (\<lambda>x. fl_ge x tol) s)"
  define N where "N = transpose_m (drop_rows nnz vh)"
  have ns: "nullspace env A atol rtol = Inr N"
    using nullspace_Inr[OF svd ne] by (simp add: N_def nnz_def tol_def)
  have shape: "nrows N = ncols A" "ncols N = ncols A - nnz" "length (entries N) = ncols A"
    using vh_rows vh_cols by (simp_all add: N_def transpose_m_def drop_rows_def)
  have rowlen: "\<forall>r\<in>set (entries N). length r = ncols A - nnz"
    using vh_len by (auto simp: N_def transpose_m_def drop_rows_def)
  have col: "map (\<lambda>r. r ! j) (entries N) = entries vh ! (nnz + j)" if "j < ncols A - nnz" for j
  proof -
    have "j < length (drop nnz (entries vh))" using that vh_len by simp
    moreover have "length (drop nnz (entries vh) ! j) = ncols A"
      using that vh_len vh_rect by simp
    ultimately have "map (\<lambda>r. r ! j) (map (\<lambda>c. map (\<lambda>r. r ! c) (drop nnz (entries vh))) [0..<ncols A])
        = drop nnz (entries vh) ! j"
      by (rule transpose_column)
    then show ?thesis using that vh_cols vh_len by (simp add: N_def transpose_m_def drop_rows_def)
  qed
  have pre: "(nnz \<le> i) = (\<not> fl_ge (s ! i) tol)" if "i < length s" for i
    using count_ge_prefix[OF desc that, of tol] by (auto simp: nnz_def)
  have eq: "i < nnz" if "i < length s" "s ! i = tol" for i
  proof -
    have "fl_ge (s ! i) tol" using that(2) py_max_not_nan[of atol] by (simp add: fl_ge_refl tol_def)
    then show ?thesis using pre[OF that(1)] by simp
  qed
  have orth: "dot (map (\<lambda>r. r ! i) (entries N)) (map (\<lambda>r. r ! j) (entries N)) = Fin (if i = j then 1 else 0)"
    if vh: "\<forall>i<ncols A. \<forall>j<ncols A. dot (entries vh ! i) (entries vh ! j) = Fin (if i = j then 1 else 0)"
      and "i < ncols A - nnz" "j < ncols A - nnz" for i j
    using that by (simp add: col)
  show "let tol = py_max (Fin atol) (fl_mul (Fin rtol) (hd s));
               nnz = length (filter (\<lambda>x. fl_ge x tol) s)
           in \<exists>N. nullspace env A atol rtol = Inr N
              \<and> nrows N = ncols A \<and> ncols N = ncols A - nnz
              \<and> length (entries N) = ncols A
              \<and> (\<forall>r\<in>set (entries N). length r = ncols A - nnz)
              \<and> (\<forall>j<ncols A - nnz. map (\<lambda>r. r ! j) (entries N) = entries vh ! (nnz + j))
              \<and> (\<forall>i<length s. (nnz \<le> i) = (\<not> fl_ge (s ! i) tol))
              \<and> (\<forall>i<length s. s ! i = tol \<longrightarrow> i < nnz)
              \<and> ((\<forall>i<ncols A. \<forall>j<ncols A.
                      dot (entries vh ! i) (entries vh ! j) = Fin (if i = j then 1 else 0))
                  \<longrightarrow> (\<forall>i<ncols A - nnz. \<forall>j<ncols A - nnz.
                         dot (map (\<lambda>r. r ! i) (entries N)) (map (\<lambda>r. r ! j) (entries N))
                           = Fin (if i = j then 1 else 0)))"
    unfolding Let_def tol_def[symmetric] nnz_def[symmetric]
    using ns shape rowlen col pre eq orth by blast
qed

text \<open>
  The theorem at the diagonal matrix with entries 1 and \<open>10^-14\<close> and the default
  tolerances: the second right singular vector is the basis.
\<close>

theorem nullspace_basis_witness:
  "nullspace
     (fixed_env [] []
        (\<lparr>nrows = 2, ncols = 2, entries = [[Fin 1, Fin 0], [Fin 0, Fin 1]]\<rparr>,
         [Fin 1, Fin (1 / 10 ^ 14)],
         \<lparr>nrows = 2, ncols = 2, entries = [[Fin 1, Fin 0], [Fin 0, Fin 1]]\<rparr>)
        (\<lambda>x0. \<lparr>res_success = True, res_message = [], res_x = x0\<rparr>))
     \<lparr>nrows = 2, ncols = 2, entries = [[Fin 1, Fin 0], [Fin 0, Fin (1 / 10 ^ 14)]]\<rparr>
     (1 / 10 ^ 13) 0
   = Inr \<lparr>nrows = 2, ncols = 1, entries = [[Fin 0], [Fin 1]]\<rparr>
   \<and> sorted_wrt fl_ge [Fin 1, Fin (1 / 10 ^ 14)]"
  using nullspace_basis[of
      "fixed_env [] []
        (\<lparr>nrows = 2, ncols = 2, entries = [[Fin 1, Fin 0], [Fin 0, Fin 1]]\<rparr>,
         [Fin 1, Fin (1 / 10 ^ 14)],
         \<lparr>nrows = 2, ncols = 2, entries = [[Fin 1, Fin 0], [Fin 0, Fin 1]]\<rparr>)
        (\<lambda>x0. \<lparr>res_success = True, res_message = [], res_x = x0\<rparr>)"
      "\<lparr>nrows = 2, ncols = 2, entries = [[Fin 1, Fin 0], [Fin 0, Fin (1 / 10 ^ 14)]]\<rparr>"
      "\<lparr>nrows = 2, ncols = 2, entries = [[Fin 1, Fin 0], [Fin 0, Fin 1]]\<rparr>"
      "[Fin 1, Fin (1 / 10 ^ 14)]"
      "\<lparr>nrows = 2, ncols = 2, entries = [[Fin 1, Fin 0], [Fin 0, Fin 1]]\<rparr>"
      "1 / 10 ^ 13" 0]
  by (simp add: fixed_env_def nullspace_def py_max_def transpose_m_def drop_rows_def Let_def upt_rec)

text \<open>
  C2 as the specification states it fails at the diagonal matrix with entries 1 and
  \<open>10^-13\<close>: the tolerance is \<open>10^-13\<close>, the second singular value is equal to it, and
  the basis is empty.
\<close>

theorem nullspace_basis_counterexample:
  "nullspace
     (fixed_env [] []
        (\<lparr>nrows = 2, ncols = 2, entries = [[Fin 1, Fin 0], [Fin 0, Fin 1]]\<rparr>,
         [Fin 1, Fin (1 / 10 ^ 13)],
         \<lparr>nrows = 2, ncols = 2, entries = [[Fin 1, Fin 0], [Fin 0, Fin 1]]\<rparr>)
        (\<lambda>x0. \<lparr>res_success = True, res_message = [], res_x = x0\<rparr>))
     \<lparr>nrows = 2, ncols = 2, entries = [[Fin 1, Fin 0], [Fin 0, Fin (1 / 10 ^ 13)]]\<rparr>
     (1 / 10 ^ 13) 0
   = Inr \<lparr>nrows = 2, ncols = 0, entries = [[], []]\<rparr>
   \<and> py_max (Fin (1 / 10 ^ 13)) (fl_mul (Fin 0) (Fin 1)) = Fin (1 / 10 ^ 13)"
  by (simp add: fixed_env_def nullspace_def py_max_def transpose_m_def drop_rows_def Let_def upt_rec)

section \<open>C3: the round trip\<close>



section \<open>C4: an unknown objective\<close>

text \<open>
  C4, as the code has it. When \<^verbatim>\<open>nullspace_objective\<close> is neither "squared_lengths",
  nor "summed_lengths", nor a callable, \<^verbatim>\<open>compute_deposition\<close> never returns a series
  and never runs a second minimisation. The objective is looked at only after the first
  minimisation: when the coefficients, the length test, the least-squares solve, the
  nullspace and the squared-lengths minimisation all succeed, the calls made are
  \<^verbatim>\<open>lstsq\<close>, \<^verbatim>\<open>svd\<close> and one \<^verbatim>\<open>minimize\<close>, and the error is the ValueError
  "Unknown nullspace objective: ...". An earlier failure is reported instead of it.
\<close>

theorem unknown_objective:
  assumes "\<not> is_str ob ''squared_lengths''" "\<not> is_str ob ''summed_lengths''" "\<forall>f. ob \<noteq> Callable f"
  shows "\<exists>calls e. compute_deposition env cout flow apv por th R ob = (calls, Inl e)
          \<and> Call_minimize Summed_lengths \<notin> set calls \<and> Call_minimize Custom \<notin> set calls
          \<and> (\<forall>df coeff x N res.
                deposition_coefficients env flow apv por th R = Inr (df, coeff)
                \<and> length cout = nrows coeff
                \<and> lstsq env coeff (map snd cout) = Inr x
                \<and> nullspace env coeff (1 / 10 ^ 13) 0 = Inr N
                \<and> minimize env (\<lambda>w. objective_squared_lengths w x N)
                      (replicate (ncols N) (Fin 0)) = Inr res
                \<and> res_success res
                \<longrightarrow> calls = [Call_lstsq, Call_svd, Call_minimize Squared_lengths]
                    \<and> e = ValueError (''Unknown nullspace objective: '' @ format_objective ob))"
proof (cases "deposition_coefficients env flow apv por th R")
  case (Inl e)
  then show ?thesis by (simp add: compute_deposition_def)
next
  case (Inr p)
  obtain df coeff where p: "p = (df, coeff)" by (cases p)
  show ?thesis
  proof (cases "length cout \<noteq> nrows coeff")
    case True
    then show ?thesis using Inr p by (simp add: compute_deposition_def)
  next
    case len: False
    show ?thesis
    proof (cases "lstsq env coeff (map snd cout)")
      case (Inl e)
      then show ?thesis using Inr p len by (simp add: compute_deposition_def)
    next
      case x: (Inr x)
      show ?thesis
      proof (cases "nullspace env coeff (1 / 10 ^ 13) 0")
        case (Inl e)
        then show ?thesis using Inr p len x by (simp add: compute_deposition_def)
      next
        case N: (Inr N)
        obtain e where e: "pick_solution env ob flow x N = ([Call_minimize Squared_lengths], Inl e)"
          and ev: "\<forall>res. minimize env (\<lambda>w. objective_squared_lengths w x N)
                        (replicate (ncols N) (Fin 0)) = Inr res \<and> res_success res
                 \<longrightarrow> e = ValueError (''Unknown nullspace objective: '' @ format_objective ob)"
          using pick_solution_unknown[OF assms, of env flow x N] by blast
        have "compute_deposition env cout flow apv por th R ob
                = ([Call_lstsq, Call_svd, Call_minimize Squared_lengths], Inl e)"
          using Inr p len x N e by (simp add: compute_deposition_def)
        then show ?thesis using Inr p x N ev by auto
      qed
    qed
  qed
qed

text \<open>
  The theorem at two daily samples, one residence time of half a day and the objective
  \<^verbatim>\<open>None\<close>. The routines return what they return on this input: the least-squares
  solution \<open>[0, 2]\<close>, the singular value 1/2 with the right singular vectors \<open>(0, 1)\<close> and
  \<open>(1, 0)\<close>, and the minimiser 2.
\<close>

theorem unknown_objective_witness:
  "\<not> is_str (Other ''None'') ''squared_lengths''
   \<and> \<not> is_str (Other ''None'') ''summed_lengths''
   \<and> (\<forall>f. Other ''None'' \<noteq> Callable f)
   \<and> compute_deposition
     (fixed_env [None, Some (1 / 2)] [Fin 0, Fin 2]
        (\<lparr>nrows = 1, ncols = 1, entries = [[Fin 1]]\<rparr>, [Fin (1 / 2)],
         \<lparr>nrows = 2, ncols = 2, entries = [[Fin 0, Fin 1], [Fin 1, Fin 0]]\<rparr>)
        (\<lambda>x0. \<lparr>res_success = True, res_message = ''Optimization terminated successfully.'',
                res_x = [Fin 2]\<rparr>))
     [(1, 1)] [(0, 1), (1, 1)] 1 (1 / 2) 2 1 (Other ''None'')
   = ([Call_lstsq, Call_svd, Call_minimize Squared_lengths],
      Inl (ValueError ''Unknown nullspace objective: None''))"
proof -
  have ev: "compute_deposition
     (fixed_env [None, Some (1 / 2)] [Fin 0, Fin 2]
        (\<lparr>nrows = 1, ncols = 1, entries = [[Fin 1]]\<rparr>, [Fin (1 / 2)],
         \<lparr>nrows = 2, ncols = 2, entries = [[Fin 0, Fin 1], [Fin 1, Fin 0]]\<rparr>)
        (\<lambda>x0. \<lparr>res_success = True, res_message = ''Optimization terminated successfully.'',
                res_x = [Fin 2]\<rparr>))
     [(1, 1)] [(0, 1), (1, 1)] 1 (1 / 2) 2 1 (Other ''None'')
   = ([Call_lstsq, Call_svd, Call_minimize Squared_lengths],
      Inl (ValueError ''Unknown nullspace objective: None''))"
    by (simp add: compute_deposition_def pick_solution_def second_stage_def
      deposition_coefficients_def scaled_coefficients_def fixed_env_def dt_row_def
      slice_fill_def searchsorted_def bisect_left.simps Let_def upt_rec median_def clip_lower_def
      scale_row_def has_nan_def nullspace_def py_max_def transpose_m_def drop_rows_def)
  show ?thesis
    using unknown_objective[of "Other ''None''"
        "fixed_env [None, Some (1 / 2)] [Fin 0, Fin 2]
          (\<lparr>nrows = 1, ncols = 1, entries = [[Fin 1]]\<rparr>, [Fin (1 / 2)],
           \<lparr>nrows = 2, ncols = 2, entries = [[Fin 0, Fin 1], [Fin 1, Fin 0]]\<rparr>)
          (\<lambda>x0. \<lparr>res_success = True, res_message = ''Optimization terminated successfully.'',
                  res_x = [Fin 2]\<rparr>)"
        "[(1, 1)]" "[(0, 1), (1, 1)]" 1 "1 / 2" 2 1] ev
    by simp
qed

text \<open>
  C4 as the specification states it fails on the same input with the objective
  "not_a_real_objective": the squared-lengths minimisation has run before the error is
  reported.
\<close>

theorem unknown_objective_counterexample:
  "compute_deposition
     (fixed_env [None, Some (1 / 2)] [Fin 0, Fin 2]
        (\<lparr>nrows = 1, ncols = 1, entries = [[Fin 1]]\<rparr>, [Fin (1 / 2)],
         \<lparr>nrows = 2, ncols = 2, entries = [[Fin 0, Fin 1], [Fin 1, Fin 0]]\<rparr>)
        (\<lambda>x0. \<lparr>res_success = True, res_message = ''Optimization terminated successfully.'',
                res_x = [Fin 2]\<rparr>))
     [(1, 1)] [(0, 1), (1, 1)] 1 (1 / 2) 2 1 (Str ''not_a_real_objective'')
   = ([Call_lstsq, Call_svd, Call_minimize Squared_lengths],
      Inl (ValueError ''Unknown nullspace objective: not_a_real_objective''))"
  by (simp add: compute_deposition_def pick_solution_def second_stage_def
      deposition_coefficients_def scaled_coefficients_def fixed_env_def dt_row_def
      slice_fill_def searchsorted_def bisect_left.simps Let_def upt_rec median_def clip_lower_def
      scale_row_def has_nan_def nullspace_def py_max_def transpose_m_def drop_rows_def)

section \<open>C5: the optimiser does not converge\<close>

text \<open>
  C5 fails on the code for the second minimisation. The input: two daily samples, one
  residence time of half a day, the objective "summed_lengths". The first minimisation
  starts at 0 and converges to 2; the second starts there and reports
  \<^verbatim>\<open>success = False\<close>. Line 68 tests the first result only: no error is raised, and the
  series is built from the result of the second minimisation.
\<close>

theorem unconverged_second_stage:
  "compute_deposition
     (fixed_env [None, Some (1 / 2)] [Fin 0, Fin 2]
        (\<lparr>nrows = 1, ncols = 1, entries = [[Fin 1]]\<rparr>, [Fin (1 / 2)],
         \<lparr>nrows = 2, ncols = 2, entries = [[Fin 0, Fin 1], [Fin 1, Fin 0]]\<rparr>)
        (\<lambda>x0. if x0 = [Fin 0]
              then \<lparr>res_success = True, res_message = ''Optimization terminated successfully.'',
                    res_x = [Fin 2]\<rparr>
              else \<lparr>res_success = False,
                    res_message = ''Desired error not necessarily achieved due to precision loss.'',
                    res_x = [Fin 2]\<rparr>))
     [(1, 1)] [(0, 1), (1, 1)] 1 (1 / 2) 2 1 (Str ''summed_lengths'')
   = ([Call_lstsq, Call_svd, Call_minimize Squared_lengths, Call_minimize Summed_lengths],
      Inr [(0, Fin 2), (1, Fin 2)])"
  by (simp add: compute_deposition_def pick_solution_def second_stage_def deposition_series_def
      solutions_def matvec_def np_add_def dot_def
      deposition_coefficients_def scaled_coefficients_def fixed_env_def dt_row_def
      slice_fill_def searchsorted_def bisect_left.simps Let_def upt_rec median_def clip_lower_def
      scale_row_def has_nan_def nullspace_def py_max_def transpose_m_def drop_rows_def)

section \<open>C6: the test for NaN\<close>




section \<open>C7: the length of cout\<close>

text \<open>
  C7. When the length of \<^verbatim>\<open>cout\<close> differs from the number of extraction timestamps
  whose residence time is not missing, which is the number of rows of the coefficient
  matrix, \<^verbatim>\<open>compute_deposition\<close> ends with an error before any numerical routine is
  called: no least-squares solve, no decomposition, no minimisation. When the coefficient
  matrix was built, the error is the ValueError "Length of cout (..) should be equal to the
  number of rows in coeff (..)"; \<^verbatim>\<open>cout\<close> is neither cut nor padded.
\<close>

theorem length_mismatch:
  assumes "length cout \<noteq> length (filter (\<lambda>r. r \<noteq> None) (residence_time_retarded env flow apv R))"
  shows "\<exists>e. compute_deposition env cout flow apv por th R ob = ([], Inl e)
     \<and> (\<forall>df coeff. deposition_coefficients env flow apv por th R = Inr (df, coeff) \<longrightarrow>
          nrows coeff = length (filter (\<lambda>r. r \<noteq> None) (residence_time_retarded env flow apv R))
          \<and> e = ValueError (length_message (length cout) (nrows coeff)))"
proof (cases "deposition_coefficients env flow apv por th R")
  case (Inl e)
  then show ?thesis by (simp add: compute_deposition_def)
next
  case (Inr p)
  obtain df coeff where p: "p = (df, coeff)" by (cases p)
  have n: "nrows coeff = length (filter (\<lambda>r. r \<noteq> None) (residence_time_retarded env flow apv R))"
    using nrows_valid[of env flow apv por th R df coeff] Inr p by simp
  then show ?thesis using Inr p assms by (simp add: compute_deposition_def)
qed

text \<open>The theorem at a \<^verbatim>\<open>cout\<close> of two values for a coefficient matrix of one row.\<close>

theorem length_mismatch_witness:
  "length [(0::real, 1::real), (1, 1)] \<noteq> length (filter (\<lambda>r. r \<noteq> None) [None, Some (1 / 2 :: real)])
   \<and> compute_deposition
     (fixed_env [None, Some (1 / 2)] [Fin 0, Fin 2]
        (\<lparr>nrows = 1, ncols = 1, entries = [[Fin 1]]\<rparr>, [Fin (1 / 2)],
         \<lparr>nrows = 2, ncols = 2, entries = [[Fin 0, Fin 1], [Fin 1, Fin 0]]\<rparr>)
        (\<lambda>x0. \<lparr>res_success = True, res_message = ''Optimization terminated successfully.'',
                res_x = [Fin 2]\<rparr>))
     [(0, 1), (1, 1)] [(0, 1), (1, 1)] 1 (1 / 2) 2 1 (Str ''squared_lengths'')
   = ([], Inl (ValueError
        ''Length of cout (2) should be equal to the number of rows in coeff (1)Either ''))"
proof -
  have ev: "compute_deposition
     (fixed_env [None, Some (1 / 2)] [Fin 0, Fin 2]
        (\<lparr>nrows = 1, ncols = 1, entries = [[Fin 1]]\<rparr>, [Fin (1 / 2)],
         \<lparr>nrows = 2, ncols = 2, entries = [[Fin 0, Fin 1], [Fin 1, Fin 0]]\<rparr>)
        (\<lambda>x0. \<lparr>res_success = True, res_message = ''Optimization terminated successfully.'',
                res_x = [Fin 2]\<rparr>))
     [(0, 1), (1, 1)] [(0, 1), (1, 1)] 1 (1 / 2) 2 1 (Str ''squared_lengths'')
   = ([], Inl (ValueError
        ''Length of cout (2) should be equal to the number of rows in coeff (1)Either ''))"
    by (simp add: compute_deposition_def length_message_def str_nat.simps
      deposition_coefficients_def scaled_coefficients_def fixed_env_def dt_row_def
      slice_fill_def searchsorted_def bisect_left.simps Let_def upt_rec median_def clip_lower_def
      scale_row_def has_nan_def)
  show ?thesis
    using length_mismatch[of "[(0, 1), (1, 1)]"
        "fixed_env [None, Some (1 / 2)] [Fin 0, Fin 2]
          (\<lparr>nrows = 1, ncols = 1, entries = [[Fin 1]]\<rparr>, [Fin (1 / 2)],
           \<lparr>nrows = 2, ncols = 2, entries = [[Fin 0, Fin 1], [Fin 1, Fin 0]]\<rparr>)
          (\<lambda>x0. \<lparr>res_success = True, res_message = ''Optimization terminated successfully.'',
                  res_x = [Fin 2]\<rparr>)"
        "[(0, 1), (1, 1)]" 1 1 "1 / 2" 2 "Str ''squared_lengths''"] ev
    by simp
qed

section \<open>C8: a nullspace of dimension 0\<close>


section \<open>C9: the rows of the coefficient matrix\<close>

text \<open>
  C9, as the code has it. When \<^verbatim>\<open>deposition_coefficients\<close> returns, the matrix has
  exactly one row per extraction timestamp whose residence time is not missing, with one
  entry per flow sample, and the rows are in the order of those timestamps in the flow
  index: row \<open>i\<close> of the matrix is the weight row of the \<open>i\<close>-th such timestamp, built
  from its residence time and scaled by its area over its clipped flow. Nothing excludes a
  row that is zero in every column.
\<close>

theorem coefficient_rows:
  assumes "deposition_coefficients env flow apv por th R = Inr (df_out, coeff)"
  shows "let rt = residence_time_retarded env flow apv R;
             valid = filter (\<lambda>(p, r). r \<noteq> None) (zip flow rt);
             flow_floor = fl_div (median (map snd flow)) (Fin 100)
         in length rt = length flow
            \<and> nrows coeff = length valid \<and> length (entries coeff) = length valid
            \<and> length df_out = length valid
            \<and> map row_date_extraction df_out = map (fst \<circ> fst) valid
            \<and> ncols coeff = length flow
            \<and> (\<forall>i<length valid. \<exists>t q r row.
                  valid ! i = ((t, q), Some r)
                  \<and> dt_row (map fst flow) t (t - r) = Inr row \<and> length row = length flow
                  \<and> entries coeff ! i =
                      map (\<lambda>w. fl_mul (fl_div (fl_div (Fin q) (Fin (R * por * th)))
                                              (Fin (clip_lower flow_floor q))) (Fin w)) row)"
proof -
  define rt where "rt = residence_time_retarded env flow apv R"
  define df0 where "df0 = valid_rows (R * por * th) flow rt"
  define valid where "valid = filter (\<lambda>(p, r). r \<noteq> None) (zip flow rt)"
  define flow_floor where "flow_floor = fl_div (median (map snd flow)) (Fin 100)"
  have sc: "scaled_coefficients env flow apv por th R = Inr (df_out, coeff)"
    using assms by (simp add: deposition_coefficients_Inr)
  have len: "length rt = length flow"
    using scaled_coefficients_Inr(1)[OF sc] by (simp add: rt_def)
  obtain dt where dt: "dt_rows (map fst flow) df0 = Inr dt"
    and df_out: "df_out = map (\<lambda>r. r\<lparr>row_flow := clip_lower flow_floor (row_flow r)\<rparr>) df0"
    and coeff: "coeff = \<lparr>nrows = length df0, ncols = length flow, entries = map2 scale_row df_out dt\<rparr>"
    using scaled_coefficients_Inr(2)[OF sc] by (auto simp: rt_def df0_def flow_floor_def)
  have vf: "map (\<lambda>r. ((row_date_extraction r, row_flow r), Some (row_rt r))) df0 = valid"
    unfolding df0_def valid_def by (rule valid_rows_filter)
  have l0: "length df0 = length valid" using arg_cong[OF vf, of length] by simp
  have ldt: "length dt = length df0"
    and rows: "\<And>i. i < length df0 \<Longrightarrow>
        dt_row (map fst flow) (row_date_extraction (df0 ! i))
          (row_dates_infiltration_retarded (df0 ! i)) = Inr (dt ! i)"
    using dt_rows_spec[OF dt] by simp_all
  have ldf: "length df_out = length df0" by (simp add: df_out)
  have dates: "map row_date_extraction df_out = map (fst \<circ> fst) valid"
    unfolding vf[symmetric] df_out by (simp add: comp_def)
  have each: "\<exists>t q r row. valid ! i = ((t, q), Some r)
                  \<and> dt_row (map fst flow) t (t - r) = Inr row \<and> length row = length flow
                  \<and> entries coeff ! i =
                      map (\<lambda>w. fl_mul (fl_div (fl_div (Fin q) (Fin (R * por * th)))
                                              (Fin (clip_lower flow_floor q))) (Fin w)) row"
    if i: "i < length valid" for i
  proof -
    have i0: "i < length df0" using i l0 by simp
    define r where "r = df0 ! i"
    have rmem: "r \<in> set (valid_rows (R * por * th) flow rt)"
      using i0 by (simp add: r_def df0_def[symmetric])
    note M = valid_rows_mem[OF rmem]
    have vi: "valid ! i = ((row_date_extraction r, row_flow r), Some (row_rt r))"
      using i0 by (simp add: vf[symmetric] r_def)
    have row: "dt_row (map fst flow) (row_date_extraction r) (row_date_extraction r - row_rt r)
        = Inr (dt ! i)"
      using rows[OF i0] M by (simp add: r_def)
    have out: "df_out ! i = r\<lparr>row_flow := clip_lower flow_floor (row_flow r)\<rparr>"
      using i0 by (simp add: df_out r_def)
    have da: "row_darea r = fl_div (Fin (row_flow r)) (Fin (R * por * th))" using M by blast
    have "entries coeff ! i = scale_row (df_out ! i) (dt ! i)"
      using i0 by (simp add: coeff ldt ldf)
    also have "\<dots> = map (\<lambda>w. fl_mul (fl_div (row_darea r)
                          (Fin (clip_lower flow_floor (row_flow r)))) (Fin w)) (dt ! i)"
      by (simp add: scale_row_def out)
    finally have ent: "entries coeff ! i =
        map (\<lambda>w. fl_mul (fl_div (fl_div (Fin (row_flow r)) (Fin (R * por * th)))
                          (Fin (clip_lower flow_floor (row_flow r)))) (Fin w)) (dt ! i)"
      by (simp only: da)
    have ll: "length (dt ! i) = length flow" using dt_row_length[OF row] by simp
    show ?thesis
      apply (intro exI conjI)
         apply (rule vi)
        apply (rule row)
       apply (rule ll)
      apply (rule ent)
      done
  qed
  show ?thesis
    unfolding Let_def rt_def[symmetric] valid_def[symmetric] flow_floor_def[symmetric]
    using len l0 ldt ldf dates each by (simp add: coeff)
qed

text \<open>
  The theorem at three daily samples of flow 1 and one residence time of half a day: one
  row, \<open>[0, 0, 1/2]\<close>, for the third sample.
\<close>

theorem coefficient_rows_witness:
  "deposition_coefficients (residence_env [None, None, Some (1 / 2)])
      [(0, 1), (1, 1), (2, 1)] 1 (1 / 2) 2 1
    = Inr ([\<lparr>row_date_extraction = 2, row_rt = 1 / 2, row_flow = 1,
             row_dates_infiltration_retarded = 3 / 2, row_darea = Fin 1\<rparr>],
           \<lparr>nrows = 1, ncols = 3, entries = [[Fin 0, Fin 0, Fin (1 / 2)]]\<rparr>)
   \<and> filter (\<lambda>(p, r). r \<noteq> None) (zip [(0::real, 1::real), (1, 1), (2, 1)] [None, None, Some (1 / 2 :: real)])
       = [((2, 1), Some (1 / 2))]
   \<and> dt_row [0, 1, 2] 2 (2 - 1 / 2) = Inr [0, 0, 1 / 2]"
proof -
  have d: "deposition_coefficients (residence_env [None, None, Some (1 / 2)])
      [(0, 1), (1, 1), (2, 1)] 1 (1 / 2) 2 1
    = Inr ([\<lparr>row_date_extraction = 2, row_rt = 1 / 2, row_flow = 1,
             row_dates_infiltration_retarded = 3 / 2, row_darea = Fin 1\<rparr>],
           \<lparr>nrows = 1, ncols = 3, entries = [[Fin 0, Fin 0, Fin (1 / 2)]]\<rparr>)"
    by (simp add: deposition_coefficients_def scaled_coefficients_def residence_env_def dt_row_def
      slice_fill_def searchsorted_def bisect_left.simps Let_def upt_rec median_def clip_lower_def
      scale_row_def has_nan_def)
  have r: "dt_row [0, 1, 2] 2 (2 - 1 / 2) = Inr [0, 0, 1 / 2]"
    by (simp add: dt_row_def slice_fill_def searchsorted_def bisect_left.simps Let_def upt_rec)
  have f: "filter (\<lambda>(p, r). r \<noteq> None) (zip [(0::real, 1::real), (1, 1), (2, 1)] [None, None, Some (1 / 2 :: real)])
       = [((2, 1), Some (1 / 2))]"
    by (simp del: not_None_eq)
  show ?thesis
    using coefficient_rows[OF d] d f r by blast
qed

text \<open>
  C9 as the specification states it fails where the flow at the extraction timestamp is
  zero: the area is zero, the flow is raised to the floor of a hundredth of the median,
  and the row is zero in every column.
\<close>

theorem coefficient_rows_counterexample:
  "deposition_coefficients (residence_env [None, None, Some (1 / 2)])
      [(0, 1), (1, 1), (2, 0)] 1 (1 / 2) 2 1
    = Inr ([\<lparr>row_date_extraction = 2, row_rt = 1 / 2, row_flow = 1 / 100,
             row_dates_infiltration_retarded = 3 / 2, row_darea = Fin 0\<rparr>],
           \<lparr>nrows = 1, ncols = 3, entries = [[Fin 0, Fin 0, Fin 0]]\<rparr>)"
  by (simp add: deposition_coefficients_def scaled_coefficients_def residence_env_def dt_row_def
      slice_fill_def searchsorted_def bisect_left.simps Let_def upt_rec median_def clip_lower_def
      scale_row_def has_nan_def)

section \<open>C10: a matrix without rows\<close>

text \<open>
  C10. For a matrix with zero rows the decomposition has \<open>min(0, n_columns) = 0\<close>
  singular values, and \<^verbatim>\<open>nullspace\<close> raises IndexError when it reads \<^verbatim>\<open>s[0]\<close>.
  When every residence time of a flow series is missing, the coefficient matrix has no
  row; with an empty \<^verbatim>\<open>cout\<close> the length test passes, the least-squares routine runs,
  and \<^verbatim>\<open>compute_deposition\<close> ends with that IndexError after the calls of
  \<^verbatim>\<open>lstsq\<close> and \<^verbatim>\<open>svd\<close>, whatever the objective.
\<close>

theorem nullspace_no_rows:
  "(nrows M = 0 \<and> svd env M = Inr (u, s, vh) \<and> length s = min (nrows M) (ncols M)
      \<longrightarrow> nullspace env M atol rtol = Inl IndexError)
   \<and> (length (residence_time_retarded env flow apv R) = length flow
      \<and> (\<forall>r\<in>set (residence_time_retarded env flow apv R). r = None)
      \<and> lstsq env \<lparr>nrows = 0, ncols = length flow, entries = []\<rparr> [] = Inr x
      \<and> svd env \<lparr>nrows = 0, ncols = length flow, entries = []\<rparr> = Inr (u', s', vh')
      \<and> length s' = min 0 (length flow)
      \<longrightarrow> compute_deposition env [] flow apv por th R ob = ([Call_lstsq, Call_svd], Inl IndexError))"
proof (intro conjI impI)
  assume "nrows M = 0 \<and> svd env M = Inr (u, s, vh) \<and> length s = min (nrows M) (ncols M)"
  then have "length s = 0" by (elim conjE) (simp only: min_0L)
  then have "s = []" by simp
  with \<open>nrows M = 0 \<and> svd env M = Inr (u, s, vh) \<and> length s = min (nrows M) (ncols M)\<close>
  show "nullspace env M atol rtol = Inl IndexError"
    by (simp add: nullspace_def)
next
  assume a: "length (residence_time_retarded env flow apv R) = length flow
      \<and> (\<forall>r\<in>set (residence_time_retarded env flow apv R). r = None)
      \<and> lstsq env \<lparr>nrows = 0, ncols = length flow, entries = []\<rparr> [] = Inr x
      \<and> svd env \<lparr>nrows = 0, ncols = length flow, entries = []\<rparr> = Inr (u', s', vh')
      \<and> length s' = min 0 (length flow)"
  then have dc: "deposition_coefficients env flow apv por th R
           = Inr ([], \<lparr>nrows = 0, ncols = length flow, entries = []\<rparr>)"
    by (simp add: deposition_coefficients_all_missing)
  have "nullspace env \<lparr>nrows = 0, ncols = length flow, entries = []\<rparr> (1 / 10 ^ 13) 0 = Inl IndexError"
  proof -
    from a have "length s' = 0" by (elim conjE) (simp only: min_0L)
    then have "s' = []" by simp
    with a show ?thesis by (simp add: nullspace_def)
  qed
  then show "compute_deposition env [] flow apv por th R ob = ([Call_lstsq, Call_svd], Inl IndexError)"
    using a dc by (simp add: compute_deposition_def)
qed

text \<open>The theorem at two flow samples without residence time.\<close>

theorem nullspace_no_rows_witness:
  "nullspace
     (fixed_env [None, None] [Fin 0, Fin 0]
        (\<lparr>nrows = 0, ncols = 0, entries = []\<rparr>, [],
         \<lparr>nrows = 2, ncols = 2, entries = [[Fin 1, Fin 0], [Fin 0, Fin 1]]\<rparr>)
        (\<lambda>x0. \<lparr>res_success = True, res_message = [], res_x = x0\<rparr>))
     \<lparr>nrows = 0, ncols = 2, entries = []\<rparr> (1 / 10 ^ 13) 0 = Inl IndexError
   \<and> compute_deposition
     (fixed_env [None, None] [Fin 0, Fin 0]
        (\<lparr>nrows = 0, ncols = 0, entries = []\<rparr>, [],
         \<lparr>nrows = 2, ncols = 2, entries = [[Fin 1, Fin 0], [Fin 0, Fin 1]]\<rparr>)
        (\<lambda>x0. \<lparr>res_success = True, res_message = [], res_x = x0\<rparr>))
     [] [(0, 1), (1, 1)] 1 (1 / 2) 2 1 (Str ''squared_lengths'')
     = ([Call_lstsq, Call_svd], Inl IndexError)"
  using nullspace_no_rows[of "\<lparr>nrows = 0, ncols = 2, entries = []\<rparr>"
      "fixed_env [None, None] [Fin 0, Fin 0]
        (\<lparr>nrows = 0, ncols = 0, entries = []\<rparr>, [],
         \<lparr>nrows = 2, ncols = 2, entries = [[Fin 1, Fin 0], [Fin 0, Fin 1]]\<rparr>)
        (\<lambda>x0. \<lparr>res_success = True, res_message = [], res_x = x0\<rparr>)"
      "\<lparr>nrows = 0, ncols = 0, entries = []\<rparr>" "[]"
      "\<lparr>nrows = 2, ncols = 2, entries = [[Fin 1, Fin 0], [Fin 0, Fin 1]]\<rparr>"
      "1 / 10 ^ 13" 0 "[(0, 1), (1, 1)]" 1 1 "[Fin 0, Fin 0]"
      "\<lparr>nrows = 0, ncols = 0, entries = []\<rparr>" "[]"
      "\<lparr>nrows = 2, ncols = 2, entries = [[Fin 1, Fin 0], [Fin 0, Fin 1]]\<rparr>"
      "1 / 2" 2 "Str ''squared_lengths''"]
  by (simp add: fixed_env_def)


end
